theory Spec2Isabelle
  imports
    Main
    "HOL-Library.Char_ord"
    "HOL-Library.List_Lexorder"
    "HOL-Library.Product_Lexorder"
    "HOL-Library.Multiset"
begin

section \<open>Mumma Tiffin: the request handlers of index.js\<close>

text \<open>
  The server is one file of Express handlers over six SQLite tables. Each handler is
  embedded as a function from the tables and the request to the response and the new
  tables. Text is a list of bytes (UTF-8), as SQLite stores it.
\<close>

subsection \<open>JavaScript values\<close>

text \<open>
  Request bodies, verified token payloads and parsed order snapshots are JSON values.
  Numbers are the integers; a JSON object is the list of its own properties.
\<close>

datatype jsval =
    JUndefined
  | JNull
  | JBool bool
  | JNum int
  | JStr string
  | JArr "jsval list"
  | JObj "(string \<times> jsval) list"

text \<open>The truth value JavaScript gives a value in \<open>!v\<close>, \<open>v || d\<close> and \<open>v && w\<close>.\<close>

fun truthy :: "jsval \<Rightarrow> bool" where
  "truthy JUndefined = False"
| "truthy JNull = False"
| "truthy (JBool b) = b"
| "truthy (JNum n) = (n \<noteq> 0)"
| "truthy (JStr s) = (s \<noteq> [])"
| "truthy (JArr xs) = True"
| "truthy (JObj kvs) = True"

text \<open>
  Reading a property of \<open>undefined\<close> or \<open>null\<close> throws a TypeError; so does
  destructuring them. The handlers below test \<open>nullish\<close> wherever the program would throw.
\<close>

definition nullish :: "jsval \<Rightarrow> bool" where
  "nullish v = (v = JUndefined \<or> v = JNull)"

text \<open>
  The property read \<open>v.k\<close> of a value that is not nullish, for the property names the
  handlers use (none of them is a built-in property of a string, an array or a number).
\<close>

fun field :: "jsval \<Rightarrow> string \<Rightarrow> jsval" where
  "field (JObj kvs) k = (case map_of kvs k of None \<Rightarrow> JUndefined | Some v \<Rightarrow> v)"
| "field v k = JUndefined"

text \<open>\<open>v || d\<close>\<close>

definition orElse :: "jsval \<Rightarrow> jsval \<Rightarrow> jsval" where
  "orElse v d = (if truthy v then v else d)"

text \<open>The decimal numeral of a number, as a template literal prints a row id.\<close>

definition digitChar :: "nat \<Rightarrow> char" where
  "digitChar d = ''0123456789'' ! d"

fun showNat :: "nat \<Rightarrow> string" where
  "showNat n = (if n < 10 then [digitChar n] else showNat (n div 10) @ [digitChar (n mod 10)])"

declare showNat.simps [simp del]

definition showInt :: "int \<Rightarrow> string" where
  "showInt i = (if i < 0 then CHR ''-'' # showNat (nat (- i)) else showNat (nat i))"

text \<open>\<open>xs.join(',')\<close> on the texts of the elements.\<close>

fun joinComma :: "string list \<Rightarrow> string" where
  "joinComma [] = []"
| "joinComma [s] = s"
| "joinComma (s # t # ts) = s @ '','' @ joinComma (t # ts)"

text \<open>
  The text a template literal \<open>`${v}`\<close> gives a value: an array prints its elements
  joined by commas, with \<open>null\<close> and \<open>undefined\<close> elements empty.
\<close>

fun jsToString :: "jsval \<Rightarrow> string" where
  "jsToString JUndefined = ''undefined''"
| "jsToString JNull = ''null''"
| "jsToString (JBool b) = (if b then ''true'' else ''false'')"
| "jsToString (JNum n) = showInt n"
| "jsToString (JStr s) = s"
| "jsToString (JArr xs) =
     joinComma (map (\<lambda>x. if x = JUndefined \<or> x = JNull then [] else jsToString x) xs)"
| "jsToString (JObj kvs) = ''[object Object]''"

text \<open>\<open>s.split(c)\<close> for a one-character separator: \<open>''a  b''\<close> has an empty middle part.\<close>

fun splitOn :: "char \<Rightarrow> string \<Rightarrow> string list" where
  "splitOn c [] = [[]]"
| "splitOn c (x # xs) =
     (if x = c then [] # splitOn c xs
      else (case splitOn c xs of [] \<Rightarrow> [[x]] | p # ps \<Rightarrow> (x # p) # ps))"

subsection \<open>Responses\<close>

text \<open>
  \<open>Resp status body\<close> is \<open>res.status(status).json(body)\<close> (status 200 for a bare
  \<open>res.json\<close>). \<open>ServerError\<close> is the answer of a handler's \<open>catch\<close>: status 500 with
  the text of the exception, which is the library's.
\<close>

datatype response = Resp nat jsval | ServerError

definition errorBody :: "string \<Rightarrow> jsval" where
  "errorBody msg = JObj [(''error'', JStr msg)]"

definition okBody :: jsval where
  "okBody = JObj [(''ok'', JBool True)]"

subsection \<open>The tables\<close>

text \<open>
  One record per table of \<open>initDb\<close>. A TEXT column written by the program from its own
  text is a \<open>string\<close>, an INTEGER key a \<open>nat\<close>; a column that receives a value of the
  request as it is (\<open>user_id\<close>, \<open>total\<close>, \<open>status\<close>, \<open>target_city\<close>) holds that value.
  \<open>info\<close> is NULL or text. The menu holds values of the declared column types.
\<close>

record user_row =
  u_id :: nat
  u_email :: string
  u_password_hash :: string
  u_name :: string
  u_created_at :: string

record admin_row =
  a_id :: nat
  a_email :: string
  a_password_hash :: string
  a_name :: string
  a_city :: string
  a_created_at :: string

record menu_row =
  m_id :: string
  m_meal :: string
  m_name_en :: string
  m_name_hi :: string
  m_price :: int
  m_description_en :: string
  m_description_hi :: string
  m_city :: string
  m_available_from :: string
  m_available_to :: string
  m_active :: int

record notification_row =
  n_id :: nat
  n_text :: string
  n_created_at :: string
  n_target_city :: jsval

record order_row =
  o_id :: nat
  o_user_id :: jsval
  o_total :: jsval
  o_info :: "string option"
  o_status :: jsval
  o_created_at :: string

text \<open>
  The database: the tables in insertion order, and for the two AUTOINCREMENT tables the
  handlers insert into, the largest key ever given (SQLite's \<open>sqlite_sequence\<close>).
\<close>

record db =
  users :: "user_row list"
  admins :: "admin_row list"
  menu :: "menu_row list"
  notifications :: "notification_row list"
  orders :: "order_row list"
  notifications_seq :: nat
  orders_seq :: nat

text \<open>The key AUTOINCREMENT gives a new row: one more than every key seen so far.\<close>

definition nextId :: "nat \<Rightarrow> nat list \<Rightarrow> nat" where
  "nextId seq ids = Suc (fold max ids seq)"

text \<open>
  \<open>INSERT INTO notifications (text, created_at, target_city) VALUES (?,?,?)\<close>
\<close>

definition insertNotification :: "string \<Rightarrow> string \<Rightarrow> jsval \<Rightarrow> db \<Rightarrow> db" where
  "insertNotification txt created target d =
     (let nid = nextId (notifications_seq d) (map n_id (notifications d))
      in d\<lparr>notifications := notifications d @
              [\<lparr>n_id = nid, n_text = txt, n_created_at = created, n_target_city = target\<rparr>],
            notifications_seq := nid\<rparr>)"

subsection \<open>The libraries\<close>

text \<open>
  The handlers call JSON, bcryptjs, jsonwebtoken and the SQLite engine. Their code is
  not part of the program, so the handlers take their behaviour as a parameter:
  \<^item> \<open>json_parse\<close>: \<open>JSON.parse\<close>; \<open>None\<close> when it throws;
  \<^item> \<open>json_stringify\<close>: \<open>JSON.stringify\<close>;
  \<^item> \<open>bcrypt_compare\<close>: \<open>bcrypt.compare(password, hash)\<close>; \<open>None\<close> when it rejects its
    arguments;
  \<^item> \<open>jwt_sign\<close>: \<open>jwt.sign(payload, JWT_SECRET, {expiresIn: '7d'})\<close>;
  \<^item> \<open>jwt_verify\<close>: \<open>jwt.verify(token, JWT_SECRET)\<close>; \<open>None\<close> when it throws;
  \<^item> \<open>sql_eq_text\<close>: the engine's \<open>column = ?\<close> for a bound value and a stored text;
  \<^item> \<open>sql_eq_id\<close>: the engine's \<open>id = ?\<close> for a bound value and an integer key;
  \<^item> \<open>sql_update_menu\<close>: the engine running an UPDATE statement, given as its text and
    its bound values, on the menu table: the new rows, or \<open>None\<close> when the statement
    fails. The menu update asks it about every statement whose meaning the embedding
    does not spell out itself.
\<close>

record lib =
  json_parse :: "string \<Rightarrow> jsval option"
  json_stringify :: "jsval \<Rightarrow> string"
  bcrypt_compare :: "jsval \<Rightarrow> string \<Rightarrow> bool option"
  jwt_sign :: "jsval \<Rightarrow> string"
  jwt_verify :: "string \<Rightarrow> jsval option"
  sql_eq_text :: "jsval \<Rightarrow> string \<Rightarrow> bool"
  sql_eq_id :: "jsval \<Rightarrow> nat \<Rightarrow> bool"
  sql_update_menu :: "string \<Rightarrow> jsval list \<Rightarrow> menu_row list \<Rightarrow> menu_row list option"

subsection \<open>Auth helpers\<close>

definition signToken :: "lib \<Rightarrow> jsval \<Rightarrow> string" where
  "signToken L payload = jwt_sign L payload"

text \<open>
  \<open>verifyAuthHeader\<close>: the Authorization header is absent (\<open>None\<close>) or a text. The
  result is the 401 answer, or the verified payload that becomes \<open>req.user\<close>.
\<close>

definition verifyAuthHeader :: "lib \<Rightarrow> string option \<Rightarrow> response + jsval" where
  "verifyAuthHeader L h =
     (case h of
        None \<Rightarrow> Inl (Resp 401 (errorBody ''missing authorization''))
      | Some s \<Rightarrow>
          if s = [] then Inl (Resp 401 (errorBody ''missing authorization''))
          else
            (let parts = splitOn CHR '' '' s in
             if length parts \<noteq> 2 then Inl (Resp 401 (errorBody ''invalid authorization''))
             else
               (case jwt_verify L (parts ! 1) of
                  None \<Rightarrow> Inl (Resp 401 (errorBody ''invalid token''))
                | Some data \<Rightarrow> Inr data)))"

text \<open>\<open>requireRole(role)\<close>: \<open>None\<close> is \<open>next()\<close>.\<close>

definition requireRole :: "string \<Rightarrow> jsval \<Rightarrow> response option" where
  "requireRole role user =
     (if \<not> truthy user then Some (Resp 401 (errorBody ''unauthenticated''))
      else if role \<noteq> [] \<and> field user ''role'' \<noteq> JStr role
        then Some (Resp 403 (errorBody ''forbidden''))
      else None)"

text \<open>The two middlewares in the order every protected route lists them.\<close>

definition authorize :: "lib \<Rightarrow> string \<Rightarrow> string option \<Rightarrow> response + jsval" where
  "authorize L role h =
     (case verifyAuthHeader L h of
        Inl r \<Rightarrow> Inl r
      | Inr user \<Rightarrow> (case requireRole role user of Some r \<Rightarrow> Inl r | None \<Rightarrow> Inr user))"

text \<open>
  The value a column holds after a value of the request was bound to it: \<open>undefined\<close>
  and \<open>null\<close> are bound as NULL.
\<close>

definition bound :: "jsval \<Rightarrow> jsval" where
  "bound v = (if nullish v then JNull else v)"

subsection \<open>GET /api/menu\<close>

text \<open>
  \<open>SELECT ... FROM menu ORDER BY meal, id\<close>, then the filter
  \<open>r.active == 1 && (!city || r.city === city || r.city === 'All')\<close>, where \<open>city\<close> is
  \<open>req.query.city\<close>. Texts are ordered byte by byte, a proper prefix first, as SQLite's
  BINARY collation orders them; the pair \<open>(meal, id)\<close> is ordered by \<open>meal\<close> first.
\<close>

definition menuFilter :: "jsval \<Rightarrow> menu_row \<Rightarrow> bool" where
  "menuFilter city r =
     (m_active r = 1 \<and> (\<not> truthy city \<or> JStr (m_city r) = city \<or> m_city r = ''All''))"

definition publicList :: "jsval \<Rightarrow> menu_row list \<Rightarrow> menu_row list" where
  "publicList city rows = filter (menuFilter city) (sort_key (\<lambda>r. (m_meal r, m_id r)) rows)"

definition menuJson :: "menu_row \<Rightarrow> jsval" where
  "menuJson r = JObj
     [(''id'', JStr (m_id r)), (''meal'', JStr (m_meal r)),
      (''name_en'', JStr (m_name_en r)), (''name_hi'', JStr (m_name_hi r)),
      (''price'', JNum (m_price r)),
      (''description_en'', JStr (m_description_en r)),
      (''description_hi'', JStr (m_description_hi r)),
      (''city'', JStr (m_city r)),
      (''available_from'', JStr (m_available_from r)),
      (''available_to'', JStr (m_available_to r)),
      (''active'', JNum (m_active r))]"

definition getApiMenu :: "db \<Rightarrow> jsval \<Rightarrow> response" where
  "getApiMenu d city = Resp 200 (JObj [(''menu'', JArr (map menuJson (publicList city (menu d))))])"

subsection \<open>POST /api/login and POST /api/admin/login\<close>

definition userTokenPayload :: "user_row \<Rightarrow> jsval" where
  "userTokenPayload u =
     JObj [(''id'', JNum (int (u_id u))), (''email'', JStr (u_email u)), (''role'', JStr ''user'')]"

definition postApiLogin :: "lib \<Rightarrow> db \<Rightarrow> jsval \<Rightarrow> response" where
  "postApiLogin L d body =
     (if nullish body then ServerError
      else
        (let email = field body ''email''; password = field body ''password'' in
          if \<not> truthy email \<or> \<not> truthy password
          then Resp 400 (errorBody ''email & password required'')
          else
            (case find (\<lambda>u. sql_eq_text L email (u_email u)) (users d) of
               None \<Rightarrow> Resp 400 (errorBody ''invalid credentials'')
             | Some user \<Rightarrow>
                 (case bcrypt_compare L password (u_password_hash user) of
                    None \<Rightarrow> ServerError
                  | Some ok \<Rightarrow>
                      if \<not> ok then Resp 400 (errorBody ''invalid credentials'')
                      else Resp 200 (JObj
                        [(''user'', JObj [(''id'', JNum (int (u_id user))),
                                          (''email'', JStr (u_email user)),
                                          (''name'', JStr (u_name user))]),
                         (''token'', JStr (signToken L (userTokenPayload user)))])))))"

text \<open>The object the admin login signs: \<open>{ id: admin.id, email: admin.email, role: 'admin' }\<close>.\<close>

definition adminTokenPayload :: "admin_row \<Rightarrow> jsval" where
  "adminTokenPayload a =
     JObj [(''id'', JNum (int (a_id a))), (''email'', JStr (a_email a)), (''role'', JStr ''admin'')]"

definition postApiAdminLogin :: "lib \<Rightarrow> db \<Rightarrow> jsval \<Rightarrow> response" where
  "postApiAdminLogin L d body =
     (if nullish body then ServerError
      else
        (let email = field body ''email''; password = field body ''password'' in
          (case find (\<lambda>a. sql_eq_text L email (a_email a)) (admins d) of
             None \<Rightarrow> Resp 400 (errorBody ''invalid credentials'')
           | Some admin \<Rightarrow>
               (case bcrypt_compare L password (a_password_hash admin) of
                  None \<Rightarrow> ServerError
                | Some ok \<Rightarrow>
                    if \<not> ok then Resp 400 (errorBody ''invalid credentials'')
                    else Resp 200 (JObj
                      [(''admin'', JObj [(''id'', JNum (int (a_id admin))),
                                         (''email'', JStr (a_email admin)),
                                         (''name'', JStr (a_name admin)),
                                         (''city'', JStr (a_city admin))]),
                       (''token'', JStr (signToken L (adminTokenPayload admin)))])))))"

subsection \<open>PUT /api/admin/menu/:id\<close>

text \<open>
  \<open>Object.keys(fields)\<close> and \<open>Object.values(fields)\<close> of the body: the own properties of
  an object in their order, the indices and elements of an array, the indices and
  characters of a string, and nothing for a number or a boolean.
\<close>

fun objectKeys :: "jsval \<Rightarrow> string list" where
  "objectKeys (JObj kvs) = map fst kvs"
| "objectKeys (JArr xs) = map showNat [0..<length xs]"
| "objectKeys (JStr s) = map showNat [0..<length s]"
| "objectKeys v = []"

fun objectValues :: "jsval \<Rightarrow> jsval list" where
  "objectValues (JObj kvs) = map snd kvs"
| "objectValues (JArr xs) = xs"
| "objectValues (JStr s) = map (\<lambda>c. JStr [c]) s"
| "objectValues v = []"

text \<open>\<open>xs.join(sep)\<close>\<close>

fun joinWith :: "string \<Rightarrow> string list \<Rightarrow> string" where
  "joinWith sep [] = []"
| "joinWith sep [s] = s"
| "joinWith sep (s # t # ts) = s @ sep @ joinWith sep (t # ts)"

text \<open>
  The text of the statement: every key of the body is pasted into it as it is,
  \<open>`UPDATE menu SET ${updates} WHERE id = ?`\<close> with
  \<open>updates = Object.keys(fields).map(k => `${k} = ?`).join(', ')\<close>.
\<close>

definition updateSql :: "string list \<Rightarrow> string" where
  "updateSql keys =
     ''UPDATE menu SET '' @ joinWith '', '' (map (\<lambda>k. k @ '' = ?'') keys) @ '' WHERE id = ?''"

text \<open>
  What the statement does is the engine's matter, and depends on how the engine reads
  each pasted key. The embedding spells out the typed statements: those whose keys are
  distinct names of menu columns, written as the schema writes them, each with a value
  of the column's declared type (a text for a TEXT column, a number for an INTEGER
  column). Such a body is the partial record \<open>menu_fields\<close> of its assignments. For
  every other body (a key in capitals or with SQL text in it, a key that is no column,
  a value of another type) \<open>typedAssignments\<close> is \<open>None\<close> and the handler's answer is
  the engine's, \<open>sql_update_menu\<close>.
\<close>

record menu_fields =
  f_id :: "string option"
  f_meal :: "string option"
  f_name_en :: "string option"
  f_name_hi :: "string option"
  f_price :: "int option"
  f_description_en :: "string option"
  f_description_hi :: "string option"
  f_city :: "string option"
  f_available_from :: "string option"
  f_available_to :: "string option"
  f_active :: "int option"

definition emptyFields :: menu_fields where
  "emptyFields =
     \<lparr>f_id = None, f_meal = None, f_name_en = None, f_name_hi = None, f_price = None,
      f_description_en = None, f_description_hi = None, f_city = None,
      f_available_from = None, f_available_to = None, f_active = None\<rparr>"

definition assignColumn :: "string \<Rightarrow> jsval \<Rightarrow> menu_fields \<Rightarrow> menu_fields option" where
  "assignColumn k v fs =
     (case v of
        JStr s \<Rightarrow>
          if k = ''id'' then Some (fs\<lparr>f_id := Some s\<rparr>)
          else if k = ''meal'' then Some (fs\<lparr>f_meal := Some s\<rparr>)
          else if k = ''name_en'' then Some (fs\<lparr>f_name_en := Some s\<rparr>)
          else if k = ''name_hi'' then Some (fs\<lparr>f_name_hi := Some s\<rparr>)
          else if k = ''description_en'' then Some (fs\<lparr>f_description_en := Some s\<rparr>)
          else if k = ''description_hi'' then Some (fs\<lparr>f_description_hi := Some s\<rparr>)
          else if k = ''city'' then Some (fs\<lparr>f_city := Some s\<rparr>)
          else if k = ''available_from'' then Some (fs\<lparr>f_available_from := Some s\<rparr>)
          else if k = ''available_to'' then Some (fs\<lparr>f_available_to := Some s\<rparr>)
          else None
      | JNum n \<Rightarrow>
          if k = ''price'' then Some (fs\<lparr>f_price := Some n\<rparr>)
          else if k = ''active'' then Some (fs\<lparr>f_active := Some n\<rparr>)
          else None
      | _ \<Rightarrow> None)"

fun typedAssignments :: "(string \<times> jsval) list \<Rightarrow> menu_fields option" where
  "typedAssignments [] = Some emptyFields"
| "typedAssignments ((k, v) # kvs) =
     (case typedAssignments kvs of
        None \<Rightarrow> None
      | Some fs \<Rightarrow> if k \<in> set (map fst kvs) then None else assignColumn k v fs)"

definition noFields :: "menu_fields \<Rightarrow> bool" where
  "noFields f =
     (f_id f = None \<and> f_meal f = None \<and> f_name_en f = None \<and> f_name_hi f = None \<and>
      f_price f = None \<and> f_description_en f = None \<and> f_description_hi f = None \<and>
      f_city f = None \<and> f_available_from f = None \<and> f_available_to f = None \<and>
      f_active f = None)"

definition setOr :: "'a option \<Rightarrow> 'a \<Rightarrow> 'a" where
  "setOr new old = (case new of None \<Rightarrow> old | Some v \<Rightarrow> v)"

definition applyFields :: "menu_fields \<Rightarrow> menu_row \<Rightarrow> menu_row" where
  "applyFields f r =
     \<lparr>m_id = setOr (f_id f) (m_id r),
      m_meal = setOr (f_meal f) (m_meal r),
      m_name_en = setOr (f_name_en f) (m_name_en r),
      m_name_hi = setOr (f_name_hi f) (m_name_hi r),
      m_price = setOr (f_price f) (m_price r),
      m_description_en = setOr (f_description_en f) (m_description_en r),
      m_description_hi = setOr (f_description_hi f) (m_description_hi r),
      m_city = setOr (f_city f) (m_city r),
      m_available_from = setOr (f_available_from f) (m_available_from r),
      m_available_to = setOr (f_available_to f) (m_available_to r),
      m_active = setOr (f_active f) (m_active r)\<rparr>"

text \<open>
  A typed statement on the menu: the row whose \<open>id\<close> is the id of the URL takes the
  assigned values. The statement fails when it has no assignment (\<open>SET\<close> followed by
  \<open>WHERE\<close> does not parse) and when the new rows would break the primary key \<open>id\<close>.
  (The identifiers of a menu that SQLite holds are distinct, so the new rows break the
  key only when the update gives a row the identifier of another.)
\<close>

definition typedUpdate :: "string \<Rightarrow> menu_fields \<Rightarrow> menu_row list \<Rightarrow> menu_row list option" where
  "typedUpdate ident fs rows =
     (if noFields fs then None
      else
        (let rows' = map (\<lambda>r. if m_id r = ident then applyFields fs r else r) rows
         in if distinct (map m_id rows') then Some rows' else None))"

text \<open>
  \<open>runUpdate\<close> is \<open>runSql(`UPDATE menu SET ${updates} WHERE id = ?`, [...vals, id])\<close> on
  the menu; \<open>None\<close> is a rejected promise.
\<close>

definition runUpdate ::
  "lib \<Rightarrow> string list \<Rightarrow> jsval list \<Rightarrow> string \<Rightarrow> menu_row list \<Rightarrow> menu_row list option" where
  "runUpdate L keys vals ident rows =
     (case typedAssignments (zip keys vals) of
        Some fs \<Rightarrow> typedUpdate ident fs rows
      | None \<Rightarrow> sql_update_menu L (updateSql keys) (vals @ [JStr ident]) rows)"

text \<open>
  The handler. \<open>Object.keys\<close> of a body that is \<open>undefined\<close> or \<open>null\<close> throws; a failed
  statement is caught; both answer 500 and leave the table as it was.
\<close>

definition putApiAdminMenu ::
  "lib \<Rightarrow> db \<Rightarrow> string option \<Rightarrow> string \<Rightarrow> jsval \<Rightarrow> response \<times> db" where
  "putApiAdminMenu L d h ident body =
     (case authorize L ''admin'' h of
        Inl r \<Rightarrow> (r, d)
      | Inr user \<Rightarrow>
          if nullish body then (ServerError, d)
          else
            (case runUpdate L (objectKeys body) (objectValues body) ident (menu d) of
               None \<Rightarrow> (ServerError, d)
             | Some rows' \<Rightarrow> (Resp 200 okBody, d\<lparr>menu := rows'\<rparr>)))"

subsection \<open>POST /api/orders\<close>

text \<open>\<open>FOREIGN KEY(user_id) REFERENCES users(id)\<close>, with \<open>PRAGMA foreign_keys = ON\<close>.\<close>

definition userKeyHolds :: "lib \<Rightarrow> db \<Rightarrow> jsval \<Rightarrow> bool" where
  "userKeyHolds L d uid = (nullish uid \<or> list_ex (\<lambda>u. sql_eq_id L uid (u_id u)) (users d))"

text \<open>
  \<open>t_order\<close> and \<open>t_notif\<close> are the two readings of the clock,
  \<open>new Date().toISOString()\<close>.
\<close>

definition postApiOrders ::
  "lib \<Rightarrow> db \<Rightarrow> string option \<Rightarrow> jsval \<Rightarrow> string \<Rightarrow> string \<Rightarrow> response \<times> db" where
  "postApiOrders L d h body t_order t_notif =
     (case authorize L ''user'' h of
        Inl r \<Rightarrow> (r, d)
      | Inr user \<Rightarrow>
          if nullish body then (ServerError, d)
          else
            (let v_items = field body ''items''; v_total = field body ''total'';
                 v_address = field body ''address''; v_date = field body ''date'';
                 v_time = field body ''time''; v_meal = field body ''meal''
             in
               if \<not> truthy v_items \<or> \<not> truthy v_address
               then (Resp 400 (errorBody ''items & address required''), d)
               else if \<not> userKeyHolds L d (field user ''id'') then (ServerError, d)
               else
                 (let oid = nextId (orders_seq d) (map o_id (orders d));
                      info = json_stringify L
                               (JObj [(''items'', v_items), (''address'', v_address),
                                      (''date'', v_date), (''time'', v_time), (''meal'', v_meal)]);
                      row = \<lparr>o_id = oid, o_user_id = bound (field user ''id''),
                             o_total = bound (orElse v_total (JNum 0)),
                             o_info = Some info, o_status = JStr ''pending'',
                             o_created_at = t_order\<rparr>;
                      d1 = d\<lparr>orders := orders d @ [row], orders_seq := oid\<rparr>;
                      d2 = insertNotification (''New order '' @ showNat oid @ '' placed'') t_notif
                             (bound (orElse (field v_address ''city'') (JStr ''All''))) d1
                  in (Resp 200 (JObj [(''ok'', JBool True), (''orderId'', JNum (int oid))]), d2))))"

subsection \<open>GET /api/admin/orders\<close>

text \<open>
  \<open>(info.address && info.address.city) ? info.address.city : 'All'\<close>; \<open>None\<close> when
  \<open>info\<close> is \<open>null\<close> and the read of \<open>info.address\<close> throws.
\<close>

definition resolveCity :: "jsval \<Rightarrow> jsval option" where
  "resolveCity info =
     (if nullish info then None
      else if truthy (field info ''address'') \<and> truthy (field (field info ''address'') ''city'')
        then Some (field (field info ''address'') ''city'')
      else Some (JStr ''All''))"

text \<open>\<open>admin.city === 'All' || admin.city === city || city === 'All'\<close>\<close>

definition cityIsVisible :: "string \<Rightarrow> jsval \<Rightarrow> bool" where
  "cityIsVisible adminCity city =
     (adminCity = ''All'' \<or> JStr adminCity = city \<or> city = JStr ''All'')"

text \<open>\<open>r.info || '{}'\<close>\<close>

definition infoText :: "order_row \<Rightarrow> string" where
  "infoText r = (case o_info r of None \<Rightarrow> ''{}'' | Some s \<Rightarrow> if s = [] then ''{}'' else s)"

text \<open>
  The callback of \<open>rows.filter\<close>. \<open>admin\<close> is the row \<open>getSql\<close> found, or \<open>undefined\<close>
  (\<open>None\<close>), and reading \<open>admin.city\<close> then throws. The \<open>try\<close> block is \<open>orderTry\<close>; when
  it throws, the \<open>catch\<close> answers \<open>admin.city === 'All'\<close>. The result \<open>None\<close> is an
  exception that leaves the callback.
\<close>

definition orderTry :: "lib \<Rightarrow> admin_row option \<Rightarrow> order_row \<Rightarrow> bool option" where
  "orderTry L admin r =
     (case json_parse L (infoText r) of
        None \<Rightarrow> None
      | Some info \<Rightarrow>
          (case resolveCity info of
             None \<Rightarrow> None
           | Some city \<Rightarrow>
               (case admin of
                  None \<Rightarrow> None
                | Some a \<Rightarrow> Some (cityIsVisible (a_city a) city))))"

definition orderFilter :: "lib \<Rightarrow> admin_row option \<Rightarrow> order_row \<Rightarrow> bool option" where
  "orderFilter L admin r =
     (case orderTry L admin r of
        Some b \<Rightarrow> Some b
      | None \<Rightarrow> (case admin of None \<Rightarrow> None | Some a \<Rightarrow> Some (a_city a = ''All'')))"

text \<open>\<open>Array.prototype.filter\<close> with a callback that may throw.\<close>

fun filterThrowing :: "('a \<Rightarrow> bool option) \<Rightarrow> 'a list \<Rightarrow> 'a list option" where
  "filterThrowing p [] = Some []"
| "filterThrowing p (x # xs) =
     (case p x of
        None \<Rightarrow> None
      | Some b \<Rightarrow>
          (case filterThrowing p xs of
             None \<Rightarrow> None
           | Some ys \<Rightarrow> Some (if b then x # ys else ys)))"

text \<open>
  \<open>SELECT ... FROM orders o LEFT JOIN users u ON u.id = o.user_id ORDER BY
  o.created_at DESC\<close>: the orders, latest first, each with its user's email. SQL leaves
  the order of rows with the same \<open>created_at\<close> open; here the row inserted later comes
  first.
\<close>

definition ordersLatestFirst :: "db \<Rightarrow> order_row list" where
  "ordersLatestFirst d = rev (sort_key o_created_at (orders d))"

definition orderJson :: "lib \<Rightarrow> db \<Rightarrow> order_row \<Rightarrow> jsval" where
  "orderJson L d r = JObj
     [(''id'', JNum (int (o_id r))), (''user_id'', o_user_id r), (''total'', o_total r),
      (''info'', (case o_info r of None \<Rightarrow> JNull | Some s \<Rightarrow> JStr s)),
      (''status'', o_status r), (''created_at'', JStr (o_created_at r)),
      (''user_email'',
         (case find (\<lambda>u. sql_eq_id L (o_user_id r) (u_id u)) (users d) of
            None \<Rightarrow> JNull
          | Some u \<Rightarrow> JStr (u_email u)))]"

text \<open>The rows the handler answers with, or \<open>None\<close> when it answers 500.\<close>

definition listOrdersForAdmin :: "lib \<Rightarrow> db \<Rightarrow> jsval \<Rightarrow> order_row list option" where
  "listOrdersForAdmin L d uid =
     filterThrowing (orderFilter L (find (\<lambda>a. sql_eq_id L uid (a_id a)) (admins d)))
       (ordersLatestFirst d)"

definition getApiAdminOrders :: "lib \<Rightarrow> db \<Rightarrow> string option \<Rightarrow> response" where
  "getApiAdminOrders L d h =
     (case authorize L ''admin'' h of
        Inl r \<Rightarrow> r
      | Inr user \<Rightarrow>
          (case listOrdersForAdmin L d (field user ''id'') of
             None \<Rightarrow> ServerError
           | Some filtered \<Rightarrow>
               Resp 200 (JObj [(''orders'', JArr (map (orderJson L d) filtered))])))"

subsection \<open>PUT /api/admin/orders/:id\<close>

text \<open>The arrow of the notification text, in UTF-8.\<close>

definition arrow :: string where
  "arrow = [CHR 0xE2, CHR 0x86, CHR 0x92]"

text \<open>\<open>UPDATE orders SET status = ? WHERE id = ?\<close>, with the id of the URL.\<close>

definition updateOrderStatus :: "lib \<Rightarrow> string \<Rightarrow> jsval \<Rightarrow> order_row list \<Rightarrow> order_row list" where
  "updateOrderStatus L ident status rows =
     map (\<lambda>r. if sql_eq_id L (JStr ident) (o_id r) then r\<lparr>o_status := bound status\<rparr> else r) rows"

definition putApiAdminOrders ::
  "lib \<Rightarrow> db \<Rightarrow> string option \<Rightarrow> string \<Rightarrow> jsval \<Rightarrow> string \<Rightarrow> response \<times> db" where
  "putApiAdminOrders L d h ident body t_notif =
     (case authorize L ''admin'' h of
        Inl r \<Rightarrow> (r, d)
      | Inr user \<Rightarrow>
          if nullish body then (ServerError, d)
          else
            (let status = field body ''status'';
                 d1 = d\<lparr>orders := updateOrderStatus L ident status (orders d)\<rparr>;
                 d2 = insertNotification
                        (''Order '' @ ident @ '' status updated '' @ arrow @ '' '' @ jsToString status)
                        t_notif (JStr ''All'') d1
             in (Resp 200 okBody, d2)))"

section \<open>A sample installation\<close>

text \<open>
  One choice of the libraries' behaviour and one database, on which the handlers are run
  in the examples below. The sample parser and serialiser know the texts of the examples;
  a sample password hash is the password after \<open>hash:\<close> and a password that is no text
  is rejected; the sample tokens are four, and verifying one gives its payload with the
  issue and expiry times. Of the statements the menu update leaves to the engine, the
  sample engine knows one: the assignment to the id column written in capitals.
\<close>

definition snapshotDelhi :: jsval where
  "snapshotDelhi = JObj [(''address'', JObj [(''city'', JStr ''Delhi'')])]"

definition snapshotPune :: jsval where
  "snapshotPune = JObj [(''address'', JObj [(''city'', JStr ''Pune'')])]"

definition sampleParse :: "string \<Rightarrow> jsval option" where
  \<open>sampleParse s =
     (if s = ''{}'' then Some (JObj [])
      else if s = ''{"address":{"city":"Delhi"}}'' then Some snapshotDelhi
      else if s = ''{"address":{"city":"Pune"}}'' then Some snapshotPune
      else None)\<close>

definition sampleStringify :: "jsval \<Rightarrow> string" where
  \<open>sampleStringify v =
     (if v = JObj [(''items'', JArr []), (''address'', JObj [(''city'', JStr ''Delhi'')]),
                   (''date'', JUndefined), (''time'', JUndefined), (''meal'', JUndefined)]
      then ''{"items":[],"address":{"city":"Delhi"}}''
      else if v = JObj [(''items'', JArr [JObj [(''id'', JStr ''l1''), (''price'', JNum 85)]]),
                        (''address'', JObj [(''city'', JStr ''Delhi'')]),
                        (''date'', JUndefined), (''time'', JUndefined), (''meal'', JUndefined)]
      then ''{"items":[{"id":"l1","price":85}],"address":{"city":"Delhi"}}''
      else ''{}'')\<close>

definition userPayload :: jsval where
  "userPayload = JObj [(''id'', JNum 1), (''email'', JStr ''asha@example.com''), (''role'', JStr ''user'')]"

definition superPayload :: jsval where
  "superPayload =
     JObj [(''id'', JNum 1), (''email'', JStr ''admin@mummatiffin.com''), (''role'', JStr ''admin'')]"

definition managerPayload :: jsval where
  "managerPayload =
     JObj [(''id'', JNum 2), (''email'', JStr ''manager@mummatiffin.com''), (''role'', JStr ''admin'')]"

definition punePayload :: jsval where
  "punePayload =
     JObj [(''id'', JNum 3), (''email'', JStr ''pune@mummatiffin.com''), (''role'', JStr ''admin'')]"

definition issued :: "jsval \<Rightarrow> jsval" where
  "issued p =
     (case p of
        JObj kvs \<Rightarrow> JObj (kvs @ [(''iat'', JNum 1700000000), (''exp'', JNum 1700604800)])
      | v \<Rightarrow> v)"

definition sampleSign :: "jsval \<Rightarrow> string" where
  "sampleSign p =
     (if p = userPayload then ''token-user-1''
      else if p = superPayload then ''token-admin-1''
      else if p = managerPayload then ''token-admin-2''
      else if p = punePayload then ''token-admin-3''
      else ''token-other'')"

definition sampleVerify :: "string \<Rightarrow> jsval option" where
  "sampleVerify t =
     (if t = ''token-user-1'' then Some (issued userPayload)
      else if t = ''token-admin-1'' then Some (issued superPayload)
      else if t = ''token-admin-2'' then Some (issued managerPayload)
      else if t = ''token-admin-3'' then Some (issued punePayload)
      else None)"

definition sampleCompare :: "jsval \<Rightarrow> string \<Rightarrow> bool option" where
  "sampleCompare p h = (case p of JStr s \<Rightarrow> Some (h = ''hash:'' @ s) | _ \<Rightarrow> None)"

definition sampleUpdateMenu ::
  "string \<Rightarrow> jsval list \<Rightarrow> menu_row list \<Rightarrow> menu_row list option" where
  "sampleUpdateMenu sql vals rows =
     (if sql = ''UPDATE menu SET ID = ? WHERE id = ?''
      then (case vals of
              [JStr new, JStr old] \<Rightarrow>
                (let rows' = map (\<lambda>r. if m_id r = old then r\<lparr>m_id := new\<rparr> else r) rows
                 in if distinct (map m_id rows') then Some rows' else None)
            | _ \<Rightarrow> None)
      else None)"

definition sampleLib :: lib where
  "sampleLib =
     \<lparr>json_parse = sampleParse,
      json_stringify = sampleStringify,
      bcrypt_compare = sampleCompare,
      jwt_sign = sampleSign,
      jwt_verify = sampleVerify,
      sql_eq_text = (\<lambda>v s. v = JStr s),
      sql_eq_id = (\<lambda>v n. v = JNum (int n) \<or> v = JStr (showNat n)),
      sql_update_menu = sampleUpdateMenu\<rparr>"

definition asha :: user_row where
  "asha = \<lparr>u_id = 1, u_email = ''asha@example.com'', u_password_hash = ''hash:tiffin'',
           u_name = ''Asha'', u_created_at = ''2024-01-01T08:00:00.000Z''\<rparr>"

definition superAdmin :: admin_row where
  "superAdmin = \<lparr>a_id = 1, a_email = ''admin@mummatiffin.com'', a_password_hash = ''hash:admin123'',
                 a_name = ''Super Admin'', a_city = ''All'',
                 a_created_at = ''2024-01-01T00:00:00.000Z''\<rparr>"

definition cityManager :: admin_row where
  "cityManager = \<lparr>a_id = 2, a_email = ''manager@mummatiffin.com'',
                  a_password_hash = ''hash:manager123'', a_name = ''City Manager'',
                  a_city = ''Delhi'', a_created_at = ''2024-01-01T00:00:00.000Z''\<rparr>"

definition puneAdmin :: admin_row where
  "puneAdmin = \<lparr>a_id = 3, a_email = ''pune@mummatiffin.com'', a_password_hash = ''hash:pune123'',
                a_name = ''Pune Manager'', a_city = ''Pune'',
                a_created_at = ''2024-01-02T00:00:00.000Z''\<rparr>"

definition dish :: "string \<Rightarrow> string \<Rightarrow> string \<Rightarrow> int \<Rightarrow> string \<Rightarrow> int \<Rightarrow> menu_row" where
  "dish i meal name price city active =
     \<lparr>m_id = i, m_meal = meal, m_name_en = name, m_name_hi = [], m_price = price,
      m_description_en = [], m_description_hi = [], m_city = city,
      m_available_from = ''06:00'', m_available_to = ''20:00'', m_active = active\<rparr>"

definition sampleMenu :: "menu_row list" where
  "sampleMenu =
     [dish ''l1'' ''lunch'' ''Dal + Roti + Sabzi'' 85 ''All'' 1,
      dish ''b2'' ''breakfast'' ''Poha + Tea'' 45 ''Pune'' 1,
      dish ''b1'' ''breakfast'' ''Aloo Paratha + Curd'' 60 ''Delhi'' 1,
      dish ''d2'' ''dinner'' ''Rajma Chawal'' 90 ''Delhi'' 0]"

definition orderDelhi :: order_row where
  \<open>orderDelhi = \<lparr>o_id = 1, o_user_id = JNum 1, o_total = JNum 60,
                  o_info = Some ''{"address":{"city":"Delhi"}}'', o_status = JStr ''pending'',
                  o_created_at = ''2024-02-01T09:00:00.000Z''\<rparr>\<close>

definition orderPune :: order_row where
  \<open>orderPune = \<lparr>o_id = 2, o_user_id = JNum 1, o_total = JNum 45,
                 o_info = Some ''{"address":{"city":"Pune"}}'', o_status = JStr ''pending'',
                 o_created_at = ''2024-02-02T09:00:00.000Z''\<rparr>\<close>

definition orderBroken :: order_row where
  "orderBroken = \<lparr>o_id = 3, o_user_id = JNum 1, o_total = JNum 85,
                  o_info = Some ''{address'', o_status = JStr ''pending'',
                  o_created_at = ''2024-02-03T09:00:00.000Z''\<rparr>"

definition sampleDb :: db where
  "sampleDb =
     \<lparr>users = [asha],
      admins = [superAdmin, cityManager, puneAdmin],
      menu = sampleMenu,
      notifications = [],
      orders = [orderDelhi, orderPune, orderBroken],
      notifications_seq = 0,
      orders_seq = 3\<rparr>"

text \<open>Requests of the examples.\<close>

definition unknownLogin :: jsval where
  "unknownLogin = JObj [(''email'', JStr ''nobody@example.com''), (''password'', JStr ''tiffin'')]"

definition wrongLogin :: jsval where
  "wrongLogin = JObj [(''email'', JStr ''asha@example.com''), (''password'', JStr ''guess'')]"

definition managerLogin :: jsval where
  "managerLogin =
     JObj [(''email'', JStr ''manager@mummatiffin.com''), (''password'', JStr ''manager123'')]"

definition renameBody :: jsval where
  "renameBody = JObj [(''id'', JStr ''zz'')]"

definition priceBody :: jsval where
  "priceBody = JObj [(''price'', JNum 65)]"

definition capitalsBody :: jsval where
  "capitalsBody = JObj [(''ID'', JStr ''zz'')]"

definition numberPasswordKnown :: jsval where
  "numberPasswordKnown = JObj [(''email'', JStr ''asha@example.com''), (''password'', JNum 5)]"

definition numberPasswordUnknown :: jsval where
  "numberPasswordUnknown = JObj [(''email'', JStr ''nobody@example.com''), (''password'', JNum 5)]"

definition emptyCartOrder :: jsval where
  "emptyCartOrder = JObj [(''items'', JArr []), (''address'', JObj [(''city'', JStr ''Delhi'')])]"

definition lunchOrder :: jsval where
  "lunchOrder =
     JObj [(''items'', JArr [JObj [(''id'', JStr ''l1''), (''price'', JNum 85)]]),
           (''total'', JNum 85), (''address'', JObj [(''city'', JStr ''Delhi'')])]"

definition noAddressOrder :: jsval where
  "noAddressOrder = JObj [(''items'', JArr [JObj [(''id'', JStr ''l1''), (''price'', JNum 85)]])]"

definition deliveredBody :: jsval where
  "deliveredBody = JObj [(''status'', JStr ''delivered'')]"

definition afterLunchOrder :: db where
  "afterLunchOrder =
     snd (postApiOrders sampleLib sampleDb (Some ''Bearer token-user-1'') lunchOrder
            ''2024-03-01T12:00:00.000Z'' ''2024-03-01T12:00:00.010Z'')"

section \<open>Properties of the handlers\<close>

subsection \<open>The middlewares\<close>

lemma authorize_denied:
  "authorize L role h = Inl r \<Longrightarrow>
   \<exists>msg. r = Resp 401 (errorBody msg) \<or> r = Resp 403 (errorBody msg)"
  by (auto simp: authorize_def verifyAuthHeader_def requireRole_def Let_def
      split: option.splits if_splits sum.splits)

lemma authorize_sample_user1:
  "authorize sampleLib ''user'' (Some ''Bearer token-user-1'') = Inr (issued userPayload)"
  by (simp add: authorize_def verifyAuthHeader_def requireRole_def sampleLib_def sampleVerify_def
      issued_def userPayload_def)

lemma authorize_sample_admin1:
  "authorize sampleLib ''admin'' (Some ''Bearer token-admin-1'') = Inr (issued superPayload)"
  by (simp add: authorize_def verifyAuthHeader_def requireRole_def sampleLib_def sampleVerify_def
      issued_def superPayload_def)

lemma authorize_sample_admin2:
  "authorize sampleLib ''admin'' (Some ''Bearer token-admin-2'') = Inr (issued managerPayload)"
  by (simp add: authorize_def verifyAuthHeader_def requireRole_def sampleLib_def sampleVerify_def
      issued_def managerPayload_def)

lemma authorize_sample_admin3:
  "authorize sampleLib ''admin'' (Some ''Bearer token-admin-3'') = Inr (issued punePayload)"
  by (simp add: authorize_def verifyAuthHeader_def requireRole_def sampleLib_def sampleVerify_def
      issued_def punePayload_def)

subsection \<open>Fresh keys\<close>

lemma fold_max_ge: "s \<le> fold max ids (s::nat)"
  by (induction ids arbitrary: s) (auto intro: order_trans [OF max.cobounded2])

lemma fold_max_mem: "x \<in> set ids \<Longrightarrow> x \<le> fold max ids (s::nat)"
proof (induction ids arbitrary: s)
  case Nil
  then show ?case by simp
next
  case (Cons i ids)
  show ?case
  proof (cases "x = i")
    case True
    have "i \<le> max i s" by simp
    also have "\<dots> \<le> fold max ids (max i s)" by (rule fold_max_ge)
    finally show ?thesis using True by simp
  next
    case False
    with Cons.prems have "x \<in> set ids" by simp
    then show ?thesis by (simp add: Cons.IH)
  qed
qed

lemma nextId_fresh: "nextId s ids \<notin> set ids"
proof
  assume "nextId s ids \<in> set ids"
  then have "nextId s ids \<le> fold max ids s" by (rule fold_max_mem)
  then show False by (simp add: nextId_def)
qed

subsection \<open>The admin's view of the orders\<close>

lemma orderFilter_parsed:
  "json_parse L (infoText r) = Some info \<Longrightarrow> resolveCity info = Some city \<Longrightarrow>
   orderFilter L (Some a) r = Some (cityIsVisible (a_city a) city)"
  by (simp add: orderFilter_def orderTry_def)

lemma orderFilter_unparsable:
  "json_parse L (infoText r) = None \<Longrightarrow> orderFilter L (Some a) r = Some (a_city a = ''All'')"
  by (simp add: orderFilter_def orderTry_def)

lemma orderFilter_found:
  "orderFilter L (Some a) r = Some (orderFilter L (Some a) r = Some True)"
  by (auto simp: orderFilter_def orderTry_def split: option.splits)

lemma filterThrowing_total:
  "(\<And>x. x \<in> set xs \<Longrightarrow> p x = Some (q x)) \<Longrightarrow> filterThrowing p xs = Some (filter q xs)"
  by (induction xs) auto

lemma set_ordersLatestFirst: "set (ordersLatestFirst d) = set (orders d)"
  by (simp add: ordersLatestFirst_def)

lemma listOrdersForAdmin_found:
  assumes "find (\<lambda>a. sql_eq_id L uid (a_id a)) (admins d) = Some a"
  shows "listOrdersForAdmin L d uid =
           Some (filter (\<lambda>r. orderFilter L (Some a) r = Some True) (ordersLatestFirst d))"
  unfolding listOrdersForAdmin_def assms
  by (rule filterThrowing_total) (rule orderFilter_found)

lemma sample_parse_orderDelhi: "json_parse sampleLib (infoText orderDelhi) = Some snapshotDelhi"
  by (simp add: sampleLib_def sampleParse_def infoText_def orderDelhi_def)

lemma sample_parse_orderPune: "json_parse sampleLib (infoText orderPune) = Some snapshotPune"
  by (simp add: sampleLib_def sampleParse_def infoText_def orderPune_def)

lemma sample_broken_unparsable: "json_parse sampleLib (infoText orderBroken) = None"
  by (simp add: sampleLib_def sampleParse_def infoText_def orderBroken_def)

lemma resolve_snapshotDelhi: "resolveCity snapshotDelhi = Some (JStr ''Delhi'')"
  by (simp add: resolveCity_def snapshotDelhi_def nullish_def)

lemma resolve_snapshotPune: "resolveCity snapshotPune = Some (JStr ''Pune'')"
  by (simp add: resolveCity_def snapshotPune_def nullish_def)

lemma sample_find_admin3:
  "find (\<lambda>a. sql_eq_id sampleLib (JNum 3) (a_id a)) (admins sampleDb) = Some puneAdmin"
  by (simp add: sampleLib_def sampleDb_def superAdmin_def cityManager_def puneAdmin_def)

lemma sample_latest: "ordersLatestFirst sampleDb = [orderBroken, orderPune, orderDelhi]"
  by (simp add: ordersLatestFirst_def sampleDb_def orderBroken_def orderPune_def orderDelhi_def)

text \<open>
  Claim C1. For every administrator city \<open>adminCity\<close> and every resource city
  \<open>resourceCity\<close>, the visibility test of the admin order listing is true exactly when
  \<open>adminCity\<close> is "All", or \<open>resourceCity\<close> is "All", or the two are equal. So an
  administrator with scope "All" sees every resource, and an administrator scoped to a
  city does not see a resource of another city that is not "All". The listing applies
  this test to the city it resolves from the order's parsed snapshot.
\<close>

theorem cityIsVisible_iff:
  "(cityIsVisible adminCity (JStr resourceCity) \<longleftrightarrow>
      adminCity = ''All'' \<or> resourceCity = ''All'' \<or> adminCity = resourceCity)
   \<and> cityIsVisible ''All'' (JStr resourceCity)
   \<and> (adminCity \<noteq> ''All'' \<and> resourceCity \<noteq> adminCity \<and> resourceCity \<noteq> ''All''
        \<longrightarrow> \<not> cityIsVisible adminCity (JStr resourceCity))
   \<and> (json_parse L (infoText r) = Some info \<and> resolveCity info = Some (JStr resourceCity)
        \<longrightarrow> orderFilter L (Some a) r =
              Some (a_city a = ''All'' \<or> resourceCity = ''All'' \<or> a_city a = resourceCity))"
  by (auto simp: cityIsVisible_def orderFilter_parsed)

theorem cityIsVisible_iff_witness:
  "\<not> cityIsVisible ''Pune'' (JStr ''Delhi'') \<and> cityIsVisible ''All'' (JStr ''Delhi'')
   \<and> orderFilter sampleLib (Some puneAdmin) orderDelhi = Some False
   \<and> orderFilter sampleLib (Some cityManager) orderDelhi = Some True"
  using cityIsVisible_iff [of "''Pune''" "''Delhi''" sampleLib orderDelhi snapshotDelhi puneAdmin]
        cityIsVisible_iff [of "''Delhi''" "''Delhi''" sampleLib orderDelhi snapshotDelhi cityManager]
        sample_parse_orderDelhi resolve_snapshotDelhi
  by (simp add: puneAdmin_def cityManager_def)

text \<open>
  Claim C3, as the program has it. When the stored snapshot of an order does not parse,
  the \<open>catch\<close> of the filter answers \<open>admin.city === 'All'\<close>: the listing of an
  administrator holds the order exactly when that administrator's scope is "All". An
  administrator scoped to a city does not get the order.
\<close>

theorem unparsable_order_only_for_All:
  assumes "find (\<lambda>a. sql_eq_id L uid (a_id a)) (admins d) = Some a"
      and "r \<in> set (orders d)"
      and "json_parse L (infoText r) = None"
  shows "\<exists>rows. listOrdersForAdmin L d uid = Some rows \<and> (r \<in> set rows \<longleftrightarrow> a_city a = ''All'')"
  using assms by (simp add: listOrdersForAdmin_found set_ordersLatestFirst orderFilter_unparsable)

theorem unparsable_order_only_for_All_witness:
  "\<exists>rows. listOrdersForAdmin sampleLib sampleDb (JNum 3) = Some rows \<and> orderBroken \<notin> set rows"
proof -
  have "orderBroken \<in> set (orders sampleDb)" by (simp add: sampleDb_def)
  from unparsable_order_only_for_All [OF sample_find_admin3 this sample_broken_unparsable]
  show ?thesis by (simp add: puneAdmin_def)
qed

text \<open>
  Claim C3 as stated fails: the third order of the sample database has a snapshot that
  does not parse, and the administrator scoped "Pune" is answered the Pune order alone.
\<close>

theorem unparsable_order_hidden_from_Pune:
  "orderBroken \<in> set (orders sampleDb)
   \<and> json_parse sampleLib (infoText orderBroken) = None
   \<and> a_city puneAdmin = ''Pune''
   \<and> listOrdersForAdmin sampleLib sampleDb (JNum 3) = Some [orderPune]
   \<and> getApiAdminOrders sampleLib sampleDb (Some ''Bearer token-admin-3'')
       = Resp 200 (JObj [(''orders'', JArr [orderJson sampleLib sampleDb orderPune])])"
proof -
  have vis: "orderFilter sampleLib (Some puneAdmin) orderBroken = Some False"
            "orderFilter sampleLib (Some puneAdmin) orderPune = Some True"
            "orderFilter sampleLib (Some puneAdmin) orderDelhi = Some False"
    by (simp_all add: orderFilter_unparsable [OF sample_broken_unparsable]
        orderFilter_parsed [OF sample_parse_orderPune resolve_snapshotPune]
        orderFilter_parsed [OF sample_parse_orderDelhi resolve_snapshotDelhi]
        cityIsVisible_def puneAdmin_def)
  have l: "listOrdersForAdmin sampleLib sampleDb (JNum 3) = Some [orderPune]"
    by (simp add: listOrdersForAdmin_found [OF sample_find_admin3] sample_latest vis)
  have "field (issued punePayload) ''id'' = JNum 3"
    by (simp add: issued_def punePayload_def)
  then show ?thesis
    using l sample_broken_unparsable
    by (simp add: getApiAdminOrders_def authorize_sample_admin3)
       (simp add: sampleDb_def puneAdmin_def)
qed

subsection \<open>The public menu\<close>

text \<open>
  Claim C6. For every menu and every value of the query parameter \<open>city\<close>, the public
  list holds exactly the rows with \<open>active\<close> 1 whose city, when a filter is given (the
  parameter is truthy), is the filter or "All"; with no filter it holds every active
  row. Each such row appears as often as in the menu, and the list is ordered by meal
  and then identifier. The handler answers this list.
\<close>

theorem publicList_exact:
  "mset (publicList city rows) =
     filter_mset (\<lambda>r. m_active r = 1 \<and>
                  (truthy city \<longrightarrow> JStr (m_city r) = city \<or> m_city r = ''All'')) (mset rows)
   \<and> sorted (map (\<lambda>r. (m_meal r, m_id r)) (publicList city rows))
   \<and> getApiMenu d city =
       Resp 200 (JObj [(''menu'', JArr (map menuJson (publicList city (menu d))))])"
proof -
  have f: "menuFilter city = (\<lambda>r. m_active r = 1 \<and>
                  (truthy city \<longrightarrow> JStr (m_city r) = city \<or> m_city r = ''All''))"
    by (auto simp: menuFilter_def fun_eq_iff)
  have "mset (publicList city rows) = filter_mset (menuFilter city) (mset rows)"
    by (simp add: publicList_def)
  moreover have "sorted (map (\<lambda>r. (m_meal r, m_id r)) (publicList city rows))"
    unfolding publicList_def by (rule sorted_filter) (rule sorted_sort_key)
  ultimately show ?thesis
    by (simp add: f getApiMenu_def)
qed

theorem publicList_exact_witness:
  "mset (publicList (JStr ''Delhi'') sampleMenu) =
     {#dish ''l1'' ''lunch'' ''Dal + Roti + Sabzi'' 85 ''All'' 1,
       dish ''b1'' ''breakfast'' ''Aloo Paratha + Curd'' 60 ''Delhi'' 1#}
   \<and> sorted (map (\<lambda>r. (m_meal r, m_id r)) (publicList (JStr ''Delhi'') sampleMenu))
   \<and> mset (publicList JUndefined sampleMenu) =
     {#dish ''l1'' ''lunch'' ''Dal + Roti + Sabzi'' 85 ''All'' 1,
       dish ''b2'' ''breakfast'' ''Poha + Tea'' 45 ''Pune'' 1,
       dish ''b1'' ''breakfast'' ''Aloo Paratha + Curd'' 60 ''Delhi'' 1#}"
  using publicList_exact [of "JStr ''Delhi''" sampleMenu sampleDb]
        publicList_exact [of JUndefined sampleMenu sampleDb]
  by (simp add: sampleMenu_def dish_def)

lemma publicList_Delhi_sample:
  "publicList (JStr ''Delhi'') sampleMenu =
     [dish ''b1'' ''breakfast'' ''Aloo Paratha + Curd'' 60 ''Delhi'' 1,
      dish ''l1'' ''lunch'' ''Dal + Roti + Sabzi'' 85 ''All'' 1]"
  by (simp add: publicList_def sampleMenu_def dish_def menuFilter_def)

subsection \<open>Logins\<close>

text \<open>
  Two login attempts that both give an email and a password, one with an email no user
  row has and one with a stored email whose password \<open>bcrypt.compare\<close> answers false
  for, are answered alike: status 400 with the body \<open>{error: 'invalid credentials'}\<close>.
\<close>

lemma login_same_error:
  assumes "\<not> nullish body1" "truthy (field body1 ''email'')" "truthy (field body1 ''password'')"
      and "find (\<lambda>u. sql_eq_text L (field body1 ''email'') (u_email u)) (users d1) = None"
      and "\<not> nullish body2" "truthy (field body2 ''email'')" "truthy (field body2 ''password'')"
      and "find (\<lambda>u. sql_eq_text L (field body2 ''email'') (u_email u)) (users d2) = Some u"
      and "bcrypt_compare L (field body2 ''password'') (u_password_hash u) = Some False"
  shows "postApiLogin L d1 body1 = Resp 400 (errorBody ''invalid credentials'')
       \<and> postApiLogin L d2 body2 = postApiLogin L d1 body1"
  using assms by (simp add: postApiLogin_def)

lemma login_same_error_sample:
  "postApiLogin sampleLib sampleDb unknownLogin = Resp 400 (errorBody ''invalid credentials'')
   \<and> postApiLogin sampleLib sampleDb wrongLogin = postApiLogin sampleLib sampleDb unknownLogin"
proof -
  have a: "\<not> nullish unknownLogin" "truthy (field unknownLogin ''email'')"
    "truthy (field unknownLogin ''password'')"
    "\<not> nullish wrongLogin" "truthy (field wrongLogin ''email'')"
    "truthy (field wrongLogin ''password'')"
    by (simp_all add: unknownLogin_def wrongLogin_def nullish_def)
  have b: "find (\<lambda>u. sql_eq_text sampleLib (field unknownLogin ''email'') (u_email u))
             (users sampleDb) = None"
    by (simp add: sampleLib_def sampleDb_def unknownLogin_def asha_def)
  have c: "find (\<lambda>u. sql_eq_text sampleLib (field wrongLogin ''email'') (u_email u))
             (users sampleDb) = Some asha"
    by (simp add: sampleLib_def sampleDb_def wrongLogin_def asha_def)
  have e: "bcrypt_compare sampleLib (field wrongLogin ''password'') (u_password_hash asha)
             = Some False"
    by (simp add: sampleLib_def sampleCompare_def wrongLogin_def asha_def)
  from login_same_error [OF a(1,2,3) b a(4,5,6) c e] show ?thesis .
qed

text \<open>
  When \<open>bcrypt.compare\<close> rejects the password of a stored email (bcryptjs does for a
  password that is no text), the exception goes to the handler's \<open>catch\<close>: the answer is
  500, where an unknown email is answered 400.
\<close>

lemma login_rejected_password:
  assumes "\<not> nullish body" "truthy (field body ''email'')" "truthy (field body ''password'')"
      and "find (\<lambda>u. sql_eq_text L (field body ''email'') (u_email u)) (users d) = Some u"
      and "bcrypt_compare L (field body ''password'') (u_password_hash u) = None"
  shows "postApiLogin L d body = ServerError"
  using assms by (simp add: postApiLogin_def)

text \<open>
  Claim C8 does not hold of the program. The two branches of the handler give the same
  answer for an unknown email and for a password that does not match, but a password
  that is a number is never compared: with the password 5, the login for the stored
  email of Asha is answered 500 and the login for an email no user has is answered 400
  "invalid credentials". The two answers tell the caller which email is stored.
\<close>

theorem login_number_password_distinguishes:
  "postApiLogin sampleLib sampleDb numberPasswordKnown = ServerError
   \<and> postApiLogin sampleLib sampleDb numberPasswordUnknown
       = Resp 400 (errorBody ''invalid credentials'')"
  by (simp add: postApiLogin_def numberPasswordKnown_def numberPasswordUnknown_def nullish_def
      sampleLib_def sampleDb_def asha_def sampleCompare_def)

theorem login_number_password_distinguishes_witness:
  "postApiLogin sampleLib sampleDb numberPasswordKnown
     \<noteq> postApiLogin sampleLib sampleDb numberPasswordUnknown"
  using login_number_password_distinguishes by simp

lemma sample_manager_found:
  "find (\<lambda>a. sql_eq_text sampleLib (field managerLogin ''email'') (a_email a)) (admins sampleDb)
     = Some cityManager"
  by (simp add: sampleLib_def sampleDb_def managerLogin_def superAdmin_def cityManager_def)

lemma sample_manager_password:
  "bcrypt_compare sampleLib (field managerLogin ''password'') (a_password_hash cityManager)
     = Some True"
  by (simp add: sampleLib_def sampleCompare_def managerLogin_def cityManager_def)

lemma sample_manager_token:
  "jwt_sign sampleLib (adminTokenPayload cityManager) = ''token-admin-2''"
  by (simp add: sampleLib_def sampleSign_def adminTokenPayload_def cityManager_def
      userPayload_def superPayload_def managerPayload_def)

text \<open>
  Claim C7, as the program has it. A successful administrator login signs the object
  with the administrator's id, email and the role "admin", and nothing else: the token
  payload has no city. The city scope is in the \<open>admin\<close> object of the answer (and the
  order listing reads it from the admins table, by the id of the token).
\<close>

theorem admin_token_has_no_city:
  assumes "\<not> nullish body"
      and "find (\<lambda>a. sql_eq_text L (field body ''email'') (a_email a)) (admins d) = Some a"
      and "bcrypt_compare L (field body ''password'') (a_password_hash a) = Some True"
  shows "postApiAdminLogin L d body =
           Resp 200 (JObj [(''admin'', JObj [(''id'', JNum (int (a_id a))),
                                             (''email'', JStr (a_email a)),
                                             (''name'', JStr (a_name a)),
                                             (''city'', JStr (a_city a))]),
                           (''token'', JStr (jwt_sign L (adminTokenPayload a)))])
       \<and> adminTokenPayload a =
           JObj [(''id'', JNum (int (a_id a))), (''email'', JStr (a_email a)),
                 (''role'', JStr ''admin'')]
       \<and> field (adminTokenPayload a) ''city'' = JUndefined"
  using assms by (simp add: postApiAdminLogin_def signToken_def adminTokenPayload_def)

theorem admin_token_has_no_city_witness:
  "postApiAdminLogin sampleLib sampleDb managerLogin =
     Resp 200 (JObj [(''admin'', JObj [(''id'', JNum 2),
                                       (''email'', JStr ''manager@mummatiffin.com''),
                                       (''name'', JStr ''City Manager''),
                                       (''city'', JStr ''Delhi'')]),
                     (''token'', JStr ''token-admin-2'')])
   \<and> field (adminTokenPayload cityManager) ''city'' = JUndefined"
proof -
  have n: "\<not> nullish managerLogin" by (simp add: managerLogin_def nullish_def)
  from admin_token_has_no_city [OF n sample_manager_found sample_manager_password]
       sample_manager_token
  show ?thesis by (simp add: cityManager_def)
qed

text \<open>
  Claim C7 as stated fails: the city manager of Delhi logs in, and verifying the token
  of the answer gives the id, the email, the role and the two times of the library, and
  no city.
\<close>

theorem admin_token_city_counterexample:
  "postApiAdminLogin sampleLib sampleDb managerLogin =
     Resp 200 (JObj [(''admin'', JObj [(''id'', JNum 2),
                                       (''email'', JStr ''manager@mummatiffin.com''),
                                       (''name'', JStr ''City Manager''),
                                       (''city'', JStr ''Delhi'')]),
                     (''token'', JStr ''token-admin-2'')])
   \<and> jwt_verify sampleLib ''token-admin-2'' =
       Some (JObj [(''id'', JNum 2), (''email'', JStr ''manager@mummatiffin.com''),
                   (''role'', JStr ''admin''), (''iat'', JNum 1700000000),
                   (''exp'', JNum 1700604800)])
   \<and> field (JObj [(''id'', JNum 2), (''email'', JStr ''manager@mummatiffin.com''),
                   (''role'', JStr ''admin''), (''iat'', JNum 1700000000),
                   (''exp'', JNum 1700604800)]) ''city'' = JUndefined"
proof -
  have n: "\<not> nullish managerLogin" by (simp add: managerLogin_def nullish_def)
  have v: "jwt_verify sampleLib ''token-admin-2'' =
       Some (JObj [(''id'', JNum 2), (''email'', JStr ''manager@mummatiffin.com''),
                   (''role'', JStr ''admin''), (''iat'', JNum 1700000000),
                   (''exp'', JNum 1700604800)])"
    by (simp add: sampleLib_def sampleVerify_def issued_def managerPayload_def)
  show ?thesis
    using n sample_manager_found sample_manager_password sample_manager_token v
    by (simp add: postApiAdminLogin_def signToken_def cityManager_def)
qed

subsection \<open>Menu updates\<close>

lemma m_id_applyFields: "m_id (applyFields fs r) = setOr (f_id fs) (m_id r)"
  by (simp add: applyFields_def)

lemma ids_after_update:
  "map m_id (map (\<lambda>r. if m_id r = ident then applyFields fs r else r) rows) =
   map (\<lambda>i. if i = ident then setOr (f_id fs) i else i) (map m_id rows)"
  by (induction rows) (auto simp: m_id_applyFields)

lemma assignColumn_other:
  "assignColumn k v fs = Some fs' \<Longrightarrow> k \<noteq> ''id'' \<Longrightarrow> f_id fs' = f_id fs"
  by (auto simp: assignColumn_def split: jsval.splits if_splits)

lemma assignColumn_id:
  "assignColumn ''id'' v fs = Some fs' \<Longrightarrow> \<exists>s. v = JStr s \<and> f_id fs' = Some s"
  by (auto simp: assignColumn_def split: jsval.splits if_splits)

lemma typedAssignments_no_id:
  "typedAssignments kvs = Some fs \<Longrightarrow> ''id'' \<notin> set (map fst kvs) \<Longrightarrow> f_id fs = None"
proof (induction kvs arbitrary: fs)
  case Nil
  then show ?case by (auto simp: emptyFields_def)
next
  case (Cons kv kvs)
  obtain k v where kv: "kv = (k, v)" by (cases kv)
  from Cons.prems(1) obtain fs0 where
    t: "typedAssignments kvs = Some fs0" and a: "assignColumn k v fs0 = Some fs"
    by (auto simp: kv split: option.splits if_splits)
  from Cons.prems(2) have "k \<noteq> ''id''" "''id'' \<notin> set (map fst kvs)" by (auto simp: kv)
  with Cons.IH [OF t] assignColumn_other [OF a] show ?case by simp
qed

lemma typedAssignments_own_id:
  "typedAssignments kvs = Some fs \<Longrightarrow> map_of kvs ''id'' = Some (JStr s) \<Longrightarrow> f_id fs = Some s"
proof (induction kvs arbitrary: fs)
  case Nil
  then show ?case by simp
next
  case (Cons kv kvs)
  obtain k v where kv: "kv = (k, v)" by (cases kv)
  from Cons.prems(1) obtain fs0 where
    t: "typedAssignments kvs = Some fs0" and a: "assignColumn k v fs0 = Some fs"
    by (auto simp: kv split: option.splits if_splits)
  show ?case
  proof (cases "k = ''id''")
    case True
    with Cons.prems(2) have "v = JStr s" by (simp add: kv)
    with assignColumn_id [of v fs0 fs] a True show ?thesis by auto
  next
    case False
    with Cons.prems(2) have "map_of kvs ''id'' = Some (JStr s)" by (simp add: kv)
    with Cons.IH [OF t] assignColumn_other [OF a False] show ?thesis by simp
  qed
qed

lemma typedUpdate_ids:
  assumes u: "typedUpdate ident fs rows = Some rows'"
      and i: "f_id fs = None \<or> f_id fs = Some ident"
  shows "map m_id rows' = map m_id rows"
proof -
  from u have "rows' = map (\<lambda>r. if m_id r = ident then applyFields fs r else r) rows"
    by (auto simp: typedUpdate_def Let_def split: if_splits)
  then have "map m_id rows' =
               map (\<lambda>i. if i = ident then setOr (f_id fs) i else i) (map m_id rows)"
    by (simp only: ids_after_update)
  also have "\<dots> = map m_id rows"
    using i by (auto simp: setOr_def)
  finally show ?thesis .
qed

lemma putApiAdminMenu_typed:
  assumes "typedAssignments kvs = Some fs"
  shows "(\<exists>rows'. typedUpdate ident fs (menu d) = Some rows'
            \<and> putApiAdminMenu L d h ident (JObj kvs) = (Resp 200 okBody, d\<lparr>menu := rows'\<rparr>))
         \<or> snd (putApiAdminMenu L d h ident (JObj kvs)) = d"
  using assms
  by (auto simp: putApiAdminMenu_def runUpdate_def nullish_def zip_map_fst_snd
      split: sum.splits option.splits)

lemma sample_menu_ids: "map m_id (menu sampleDb) = [''l1'', ''b2'', ''b1'', ''d2'']"
  by (simp add: sampleDb_def sampleMenu_def dish_def)

lemma sample_price_typed:
  "typedAssignments [(''price'', JNum 65)] = Some (emptyFields\<lparr>f_price := Some 65\<rparr>)"
  by (simp add: assignColumn_def)

lemma sample_price_update:
  "putApiAdminMenu sampleLib sampleDb (Some ''Bearer token-admin-1'') ''b1'' priceBody
   = (Resp 200 okBody,
      sampleDb\<lparr>menu :=
        [dish ''l1'' ''lunch'' ''Dal + Roti + Sabzi'' 85 ''All'' 1,
         dish ''b2'' ''breakfast'' ''Poha + Tea'' 45 ''Pune'' 1,
         dish ''b1'' ''breakfast'' ''Aloo Paratha + Curd'' 65 ''Delhi'' 1,
         dish ''d2'' ''dinner'' ''Rajma Chawal'' 90 ''Delhi'' 0]\<rparr>)"
  by (simp add: putApiAdminMenu_def authorize_sample_admin1 priceBody_def nullish_def
      runUpdate_def assignColumn_def typedUpdate_def noFields_def emptyFields_def
      sampleDb_def sampleMenu_def dish_def applyFields_def setOr_def)

lemma sample_rename:
  "putApiAdminMenu sampleLib sampleDb (Some ''Bearer token-admin-1'') ''b1'' renameBody
   = (Resp 200 okBody,
      sampleDb\<lparr>menu :=
        [dish ''l1'' ''lunch'' ''Dal + Roti + Sabzi'' 85 ''All'' 1,
         dish ''b2'' ''breakfast'' ''Poha + Tea'' 45 ''Pune'' 1,
         dish ''zz'' ''breakfast'' ''Aloo Paratha + Curd'' 60 ''Delhi'' 1,
         dish ''d2'' ''dinner'' ''Rajma Chawal'' 90 ''Delhi'' 0]\<rparr>)"
  by (simp add: putApiAdminMenu_def authorize_sample_admin1 renameBody_def nullish_def
      runUpdate_def assignColumn_def typedUpdate_def noFields_def emptyFields_def
      sampleDb_def sampleMenu_def dish_def applyFields_def setOr_def)

text \<open>
  A key in capitals is no typed assignment: the statement goes to the engine as the
  handler wrote it, and the sample engine, which reads \<open>ID\<close> as the column \<open>id\<close>, stores
  the item under the new identifier.
\<close>

lemma sample_engine: "sql_update_menu sampleLib = sampleUpdateMenu"
  by (simp add: sampleLib_def)

lemma sample_capitals:
  "updateSql (objectKeys capitalsBody) = ''UPDATE menu SET ID = ? WHERE id = ?''
   \<and> typedAssignments (zip (objectKeys capitalsBody) (objectValues capitalsBody)) = None
   \<and> map m_id (menu (snd (putApiAdminMenu sampleLib sampleDb (Some ''Bearer token-admin-1'') ''b1''
        capitalsBody))) = [''l1'', ''b2'', ''zz'', ''d2'']"
  by (simp add: putApiAdminMenu_def authorize_sample_admin1 capitalsBody_def nullish_def
      runUpdate_def assignColumn_def updateSql_def sample_engine sampleUpdateMenu_def
      sampleDb_def sampleMenu_def dish_def Let_def)

text \<open>
  Claim C9, as the program has it. Take an update whose body is an object of typed
  assignments: its keys are distinct names of menu columns as the schema writes them,
  each with a value of the column's declared type. When the body has no \<open>id\<close> key, or
  its \<open>id\<close> is the item's own identifier, every identifier of the menu is after the
  update what it was before, whatever the answer: the item is still stored under the
  same identifier.
\<close>

theorem menu_update_identifier:
  assumes "typedAssignments kvs = Some fs"
      and "''id'' \<notin> set (map fst kvs) \<or> map_of kvs ''id'' = Some (JStr ident)"
  shows "map m_id (menu (snd (putApiAdminMenu L d h ident (JObj kvs)))) = map m_id (menu d)"
proof -
  from assms have i: "f_id fs = None \<or> f_id fs = Some ident"
    using typedAssignments_no_id [of kvs fs] typedAssignments_own_id [of kvs fs ident] by blast
  from putApiAdminMenu_typed [OF assms(1), of ident d L h] show ?thesis
  proof
    assume "\<exists>rows'. typedUpdate ident fs (menu d) = Some rows'
            \<and> putApiAdminMenu L d h ident (JObj kvs) = (Resp 200 okBody, d\<lparr>menu := rows'\<rparr>)"
    then obtain rows' where u: "typedUpdate ident fs (menu d) = Some rows'"
      and p: "putApiAdminMenu L d h ident (JObj kvs) = (Resp 200 okBody, d\<lparr>menu := rows'\<rparr>)"
      by blast
    from typedUpdate_ids [OF u i] show ?thesis by (simp add: p)
  next
    assume "snd (putApiAdminMenu L d h ident (JObj kvs)) = d"
    then show ?thesis by simp
  qed
qed

theorem menu_update_identifier_witness:
  "fst (putApiAdminMenu sampleLib sampleDb (Some ''Bearer token-admin-1'') ''b1'' priceBody)
     = Resp 200 okBody
   \<and> map m_id (menu (snd (putApiAdminMenu sampleLib sampleDb (Some ''Bearer token-admin-1'') ''b1''
       priceBody))) = [''l1'', ''b2'', ''b1'', ''d2'']"
proof -
  have n: "''id'' \<notin> set (map fst [(''price'', JNum 65)])
           \<or> map_of [(''price'', JNum 65)] ''id'' = Some (JStr ''b1'')"
    by simp
  from menu_update_identifier [OF sample_price_typed n, of sampleLib sampleDb
         "Some ''Bearer token-admin-1''"]
  have "map m_id (menu (snd (putApiAdminMenu sampleLib sampleDb (Some ''Bearer token-admin-1'')
       ''b1'' priceBody))) = [''l1'', ''b2'', ''b1'', ''d2'']"
    by (simp add: priceBody_def sample_menu_ids)
  then show ?thesis by (simp add: sample_price_update)
qed

text \<open>
  Claim C9 as stated fails: the super administrator updates item \<open>b1\<close> with the body
  \<open>{id: 'zz'}\<close>; the answer is ok and no item has the identifier \<open>b1\<close> afterwards.
\<close>

theorem menu_update_identifier_counterexample:
  "map m_id (menu sampleDb) = [''l1'', ''b2'', ''b1'', ''d2'']
   \<and> field renameBody ''id'' = JStr ''zz''
   \<and> fst (putApiAdminMenu sampleLib sampleDb (Some ''Bearer token-admin-1'') ''b1'' renameBody)
       = Resp 200 okBody
   \<and> map m_id (menu (snd (putApiAdminMenu sampleLib sampleDb (Some ''Bearer token-admin-1'') ''b1''
       renameBody))) = [''l1'', ''b2'', ''zz'', ''d2'']"
  by (simp add: sample_rename) (simp add: sampleDb_def sampleMenu_def dish_def renameBody_def)

subsection \<open>Creating an order\<close>

lemma bound_orElse_All: "bound (orElse c (JStr ''All'')) = (if truthy c then c else JStr ''All'')"
  by (cases c) (auto simp: bound_def orElse_def nullish_def)

lemma sample_next_order: "nextId (orders_seq sampleDb) (map o_id (orders sampleDb)) = 4"
  by (simp add: nextId_def sampleDb_def orderDelhi_def orderPune_def orderBroken_def)

lemma sample_user_key: "userKeyHolds sampleLib sampleDb (field (issued userPayload) ''id'')"
  by (simp add: userKeyHolds_def sampleLib_def sampleDb_def issued_def userPayload_def asha_def)

lemma postApiOrders_ok:
  assumes "fst (postApiOrders L d h body t_order t_notif) = Resp 200 b"
  shows "\<exists>user. authorize L ''user'' h = Inr user \<and> \<not> nullish body
          \<and> truthy (field body ''items'') \<and> truthy (field body ''address'')
          \<and> userKeyHolds L d (field user ''id'')"
  using assms
  by (auto simp: postApiOrders_def Let_def errorBody_def split: sum.splits if_splits
      dest: authorize_denied)

lemma postApiOrders_succeeds:
  assumes "authorize L ''user'' h = Inr user" and "\<not> nullish body"
      and "truthy (field body ''items'')" and "truthy (field body ''address'')"
      and "userKeyHolds L d (field user ''id'')"
  shows "fst (postApiOrders L d h body t_order t_notif) =
           Resp 200 (JObj [(''ok'', JBool True),
                           (''orderId'', JNum (int (nextId (orders_seq d) (map o_id (orders d)))))])"
  using assms by (simp add: postApiOrders_def Let_def)

lemma sample_lunch_ok:
  "fst (postApiOrders sampleLib sampleDb (Some ''Bearer token-user-1'') lunchOrder
           ''2024-03-01T12:00:00.000Z'' ''2024-03-01T12:00:00.010Z'')
   = Resp 200 (JObj [(''ok'', JBool True), (''orderId'', JNum 4)])"
proof -
  have i: "truthy (field lunchOrder ''items'')" "truthy (field lunchOrder ''address'')"
    "\<not> nullish lunchOrder"
    by (simp_all add: lunchOrder_def nullish_def)
  show ?thesis
    using sample_user_key
    by (simp add: postApiOrders_def authorize_sample_user1 i sample_next_order Let_def)
qed

text \<open>
  Claim C4, as the program has it. A request of a signed-in user whose \<open>items\<close> or
  \<open>address\<close> is missing (absent, \<open>null\<close>, or another value JavaScript takes for false)
  is answered status 400 with \<open>{error: 'items & address required'}\<close>, and the database
  is as before: no order is created.
\<close>

theorem createOrder_missing_input:
  assumes "authorize L ''user'' h = Inr user"
      and "\<not> nullish body"
      and "\<not> truthy (field body ''items'') \<or> \<not> truthy (field body ''address'')"
  shows "postApiOrders L d h body t_order t_notif =
           (Resp 400 (errorBody ''items & address required''), d)"
  using assms by (auto simp: postApiOrders_def)

theorem createOrder_missing_input_witness:
  "postApiOrders sampleLib sampleDb (Some ''Bearer token-user-1'') noAddressOrder
     ''2024-03-01T12:00:00.000Z'' ''2024-03-01T12:00:00.010Z''
   = (Resp 400 (errorBody ''items & address required''), sampleDb)"
proof -
  have "\<not> nullish noAddressOrder" by (simp add: noAddressOrder_def nullish_def)
  moreover have "\<not> truthy (field noAddressOrder ''items'')
                 \<or> \<not> truthy (field noAddressOrder ''address'')"
    by (simp add: noAddressOrder_def)
  ultimately show ?thesis
    using createOrder_missing_input [OF authorize_sample_user1] by blast
qed

text \<open>
  Claim C4 as stated fails for an empty list of items: an empty array is not false in
  JavaScript. The request with \<open>items: []\<close> and an address is answered ok with the new
  order id 4, and the orders table has a fourth row.
\<close>

theorem createOrder_empty_items_counterexample:
  "field emptyCartOrder ''items'' = JArr []
   \<and> fst (postApiOrders sampleLib sampleDb (Some ''Bearer token-user-1'') emptyCartOrder
           ''2024-03-01T12:00:00.000Z'' ''2024-03-01T12:00:00.010Z'')
       = Resp 200 (JObj [(''ok'', JBool True), (''orderId'', JNum 4)])
   \<and> map o_id (orders (snd (postApiOrders sampleLib sampleDb (Some ''Bearer token-user-1'')
           emptyCartOrder ''2024-03-01T12:00:00.000Z'' ''2024-03-01T12:00:00.010Z'')))
       = [1, 2, 3, 4]"
proof -
  have i: "field emptyCartOrder ''items'' = JArr []"
    "field emptyCartOrder ''address'' = JObj [(''city'', JStr ''Delhi'')]"
    "\<not> nullish emptyCartOrder"
    by (simp_all add: emptyCartOrder_def nullish_def)
  show ?thesis
    using sample_user_key
    by (simp add: postApiOrders_def authorize_sample_user1 i sample_next_order Let_def
        insertNotification_def)
       (simp add: sampleDb_def orderDelhi_def orderPune_def orderBroken_def)
qed

text \<open>
  Claim C5. Whenever creating an order is answered ok, the orders table has one more
  row, under a new id, with status "pending", and the notifications have exactly one
  more row: its text announces the new order id and its target is the city of the
  request's address, or "All" when the address has no city (or one JavaScript takes for
  false).
\<close>

theorem createOrder_effects:
  assumes "fst (postApiOrders L d h body t_order t_notif) = Resp 200 b"
  shows "\<exists>oid info uid tot nid.
           b = JObj [(''ok'', JBool True), (''orderId'', JNum (int oid))]
         \<and> orders (snd (postApiOrders L d h body t_order t_notif)) =
             orders d @ [\<lparr>o_id = oid, o_user_id = uid, o_total = tot, o_info = Some info,
                          o_status = JStr ''pending'', o_created_at = t_order\<rparr>]
         \<and> oid \<notin> set (map o_id (orders d))
         \<and> notifications (snd (postApiOrders L d h body t_order t_notif)) =
             notifications d @
               [\<lparr>n_id = nid, n_text = ''New order '' @ showNat oid @ '' placed'',
                 n_created_at = t_notif,
                 n_target_city =
                   (if truthy (field (field body ''address'') ''city'')
                    then field (field body ''address'') ''city'' else JStr ''All'')\<rparr>]"
proof -
  from postApiOrders_ok [OF assms] obtain user where
    u: "authorize L ''user'' h = Inr user" "\<not> nullish body"
       "truthy (field body ''items'')" "truthy (field body ''address'')"
       "userKeyHolds L d (field user ''id'')"
    by blast
  let ?oid = "nextId (orders_seq d) (map o_id (orders d))"
  have r: "postApiOrders L d h body t_order t_notif =
     (Resp 200 (JObj [(''ok'', JBool True), (''orderId'', JNum (int ?oid))]),
      insertNotification (''New order '' @ showNat ?oid @ '' placed'') t_notif
        (bound (orElse (field (field body ''address'') ''city'') (JStr ''All'')))
        (d\<lparr>orders := orders d @
              [\<lparr>o_id = ?oid, o_user_id = bound (field user ''id''),
                o_total = bound (orElse (field body ''total'') (JNum 0)),
                o_info = Some (json_stringify L
                   (JObj [(''items'', field body ''items''), (''address'', field body ''address''),
                          (''date'', field body ''date''), (''time'', field body ''time''),
                          (''meal'', field body ''meal'')])),
                o_status = JStr ''pending'', o_created_at = t_order\<rparr>],
            orders_seq := ?oid\<rparr>))"
    using u by (simp add: postApiOrders_def Let_def)
  have b: "b = JObj [(''ok'', JBool True), (''orderId'', JNum (int ?oid))]"
    using assms by (simp add: r)
  show ?thesis
    unfolding r
    using nextId_fresh [of "orders_seq d" "map o_id (orders d)"]
    apply (intro exI [of _ ?oid])
    apply (simp add: b insertNotification_def Let_def bound_orElse_All)
    done
qed

theorem createOrder_effects_witness:
  "\<exists>row n. orders afterLunchOrder = orders sampleDb @ [row] \<and> o_status row = JStr ''pending''
      \<and> o_id row \<notin> {1, 2, 3}
      \<and> notifications afterLunchOrder = notifications sampleDb @ [n]
      \<and> n_text n = ''New order '' @ showNat (o_id row) @ '' placed''
      \<and> n_target_city n = JStr ''Delhi''"
proof -
  have c: "field (field lunchOrder ''address'') ''city'' = JStr ''Delhi''"
    by (simp add: lunchOrder_def)
  have ids: "map o_id (orders sampleDb) = [1, 2, 3]"
    by (simp add: sampleDb_def orderDelhi_def orderPune_def orderBroken_def)
  from createOrder_effects [OF sample_lunch_ok]
  show ?thesis
    unfolding afterLunchOrder_def [symmetric] c ids
    by auto
qed

subsection \<open>Updating the status of an order\<close>





text \<open>
  Claim C2 does not hold of the program: the handler of a status update never reads the
  administrator's city. The city manager of Delhi is not shown the Pune order by the
  listing, yet the manager's update of order 2 is answered ok and sets the status of the
  Pune order to "delivered".
\<close>

theorem updateStatus_ignores_city:
  "a_city cityManager = ''Delhi''
   \<and> json_parse sampleLib (infoText orderPune) = Some snapshotPune
   \<and> resolveCity snapshotPune = Some (JStr ''Pune'')
   \<and> orderFilter sampleLib (Some cityManager) orderPune = Some False
   \<and> fst (putApiAdminOrders sampleLib sampleDb (Some ''Bearer token-admin-2'') ''2'' deliveredBody
          ''2024-03-02T10:00:00.000Z'') = Resp 200 okBody
   \<and> orders (snd (putApiAdminOrders sampleLib sampleDb (Some ''Bearer token-admin-2'') ''2''
          deliveredBody ''2024-03-02T10:00:00.000Z''))
       = [orderDelhi, orderPune\<lparr>o_status := JStr ''delivered''\<rparr>, orderBroken]"
proof -
  have n: "\<not> nullish deliveredBody" "field deliveredBody ''status'' = JStr ''delivered''"
    by (simp_all add: deliveredBody_def nullish_def)
  have f: "orderFilter sampleLib (Some cityManager) orderPune = Some False"
    by (simp add: orderFilter_parsed [OF sample_parse_orderPune resolve_snapshotPune]
        cityIsVisible_def cityManager_def)
  have u: "updateOrderStatus sampleLib ''2'' (JStr ''delivered'') (orders sampleDb)
             = [orderDelhi, orderPune\<lparr>o_status := JStr ''delivered''\<rparr>, orderBroken]"
    by (simp add: updateOrderStatus_def sampleLib_def sampleDb_def orderDelhi_def orderPune_def
        orderBroken_def showNat.simps digitChar_def bound_def nullish_def)
  show ?thesis
    by (simp add: sample_parse_orderPune resolve_snapshotPune f putApiAdminOrders_def
        authorize_sample_admin2 n u Let_def insertNotification_def)
       (simp add: cityManager_def)
qed

end
